theory Spec2Isabelle
  imports Main "HOL-Library.Word"
begin

section \<open>JavaScript strings\<close>

text \<open>
  A JavaScript string is a sequence of 16-bit UTF-16 code units. ASCII text of the source
  is written \<open>str ''...''\<close>; a character outside ASCII is given by its code units.
\<close>

type_synonym jsstring = "16 word list"

definition str :: "string \<Rightarrow> jsstring" where
  "str s = map of_char s"

text \<open>
  \<open>String.prototype.trim\<close> removes the WhiteSpace and LineTerminator code points of
  ECMAScript from both ends: TAB, LF, VT, FF, CR, SPACE, NBSP, the other space separators
  (U+1680, U+2000 to U+200A, U+202F, U+205F, U+3000), U+2028, U+2029 and U+FEFF.
\<close>

definition is_white :: "16 word \<Rightarrow> bool" where
  "is_white c \<longleftrightarrow>
     c \<in> set [0x09, 0x0A, 0x0B, 0x0C, 0x0D, 0x20, 0xA0, 0x1680,
              0x2000, 0x2001, 0x2002, 0x2003, 0x2004, 0x2005, 0x2006, 0x2007,
              0x2008, 0x2009, 0x200A, 0x2028, 0x2029, 0x202F, 0x205F, 0x3000, 0xFEFF]"

definition trim :: "jsstring \<Rightarrow> jsstring" where
  "trim s = rev (dropWhile is_white (rev (dropWhile is_white s)))"

text \<open>\<open>a || b\<close> on strings: the empty string is the only falsy string.\<close>

definition or_else :: "jsstring \<Rightarrow> jsstring \<Rightarrow> jsstring" where
  "or_else a b = (if a = [] then b else a)"

section \<open>Settings (main.ts, lines 16 to 49)\<close>

datatype qtype = Text | Number | Dropdown

record Question =
  q_id :: jsstring
  label :: jsstring
  q_type :: qtype
  choices :: "jsstring list option"

record ReflectionSettings =
  dailyFolder :: jsstring
  questions :: "Question list"

definition question :: "string \<Rightarrow> jsstring \<Rightarrow> qtype \<Rightarrow> Question" where
  "question i l t = \<lparr>q_id = str i, label = l, q_type = t, choices = None\<rparr>"

definition dropdown :: "string \<Rightarrow> jsstring \<Rightarrow> jsstring list \<Rightarrow> Question" where
  "dropdown i l cs = \<lparr>q_id = str i, label = l, q_type = Dropdown, choices = Some cs\<rparr>"

definition DEFAULT_SETTINGS :: ReflectionSettings where
  "DEFAULT_SETTINGS = \<lparr>
     dailyFolder = str ''Daily'',
     questions = [
       question ''todo'' ([0x2705] @ str '' What I want to accomplish today'') Text,
       question ''yesterday''
         ([0x2611, 0xFE0F] @ str '' Reflections on yesterday'' @ [0x2019]
            @ str ''s to-do list & accomplishments'') Text,
       question ''dreams'' ([0xD83D, 0xDE34] @ str '' Dreams'') Text,
       dropdown ''sleepHours'' ([0xD83D, 0xDECC] @ str '' Hours of sleep'')
         (map str [''4'', ''5'', ''6'', ''7'', ''8'', ''9'', ''10'', ''11'', ''12'']),
       question ''sleepLowest'' (str ''Lowest heart rate'') Number,
       question ''sleepAvg'' (str ''Average heart rate'') Number,
       question ''hrv'' (str ''HRV'') Number,
       dropdown ''sleepPattern'' (str ''Sleep pattern'')
         [str ''Deep'', str ''Interrupted'', str ''REM rich'',
          [0xD83E, 0xDD37, 0x200D, 0x2642, 0xFE0F]],
       question ''food'' ([0xD83C, 0xDF4F] @ str '' Food'') Text,
       dropdown ''energy'' ([0x26A1, 0xFE0F] @ str '' Energy level'')
         [str ''High'', str ''Medium'', str ''Low''],
       question ''myday'' ([0xD83D, 0xDCC6] @ str '' My Day'') Text,
       dropdown ''sad'' ([0xD83D, 0xDE14] @ str '' What am I sad about?'')
         [str ''Nothing'', str ''Work'', str ''Relationships'', str ''Health'',
          str ''Other'' @ [0x2026]],
       dropdown ''body''
         ([0x2764, 0xFE0F, 0x200D, 0xD83E, 0xDE79] @ str '' What does my body want?'')
         [str ''Rest'', str ''Exercise'', str ''Stretch'', str ''Hydrate'',
          str ''Healthy food'', str ''Other'' @ [0x2026]],
       question ''media''
         ([0xD83C, 0xDFA6] @ str '' Books / Podcasts / Media Reflection'') Text,
       question ''gratitude'' ([0xD83D, 0xDE4F] @ str '' What am I grateful for?'') Text,
       question ''triggers'' ([0x274C] @ str '' Triggers / Failures'') Text
     ]\<rparr>"

text \<open>
  \<open>loadData()\<close> resolves to the parsed data file, a partial settings record, or to
  \<open>null\<close> when there is no data file yet.
\<close>

record PersistedData =
  p_dailyFolder :: "jsstring option"
  p_questions :: "Question list option"

text \<open>
  \<open>Object.assign({}, base, source)\<close>: a fresh copy of \<open>base\<close> in which every own
  property of \<open>source\<close> has been assigned over the copy; a \<open>null\<close> source is skipped.
\<close>

definition Object_assign :: "ReflectionSettings \<Rightarrow> PersistedData option \<Rightarrow> ReflectionSettings" where
  "Object_assign base source =
     (case source of
        None \<Rightarrow> base
      | Some p \<Rightarrow>
          \<lparr>dailyFolder = (case p_dailyFolder p of None \<Rightarrow> dailyFolder base | Some f \<Rightarrow> f),
           questions = (case p_questions p of None \<Rightarrow> questions base | Some qs \<Rightarrow> qs)\<rparr>)"

definition loadSettings :: "PersistedData option \<Rightarrow> ReflectionSettings" where
  "loadSettings loadData = Object_assign DEFAULT_SETTINGS loadData"

section \<open>The answer map, a plain JavaScript object\<close>

text \<open>
  The answer map is created as \<open>{}\<close> (line 112): a plain object whose prototype is
  \<open>Object.prototype\<close>. The model keeps its own properties as a map; a property read
  \<open>answers[k]\<close> that finds no own property continues in \<open>Object.prototype\<close>, whose
  properties are the eleven built-in functions and the accessor \<open>__proto__\<close>.
\<close>

type_synonym answer_map = "jsstring \<rightharpoonup> jsstring"

datatype jsvalue =
    Undefined
  | String jsstring
  | NativeFunction jsstring
  | ObjectPrototype

definition Object_prototype :: "jsstring \<Rightarrow> jsvalue" where
  "Object_prototype k =
     (if k = str ''constructor'' then NativeFunction (str ''Object'')
      else if k = str ''__proto__'' then ObjectPrototype
      else if k \<in> set (map str [''__defineGetter__'', ''__defineSetter__'', ''hasOwnProperty'',
                ''__lookupGetter__'', ''__lookupSetter__'', ''isPrototypeOf'',
                ''propertyIsEnumerable'', ''toString'', ''valueOf'', ''toLocaleString''])
      then NativeFunction k
      else Undefined)"

definition js_get :: "answer_map \<Rightarrow> jsstring \<Rightarrow> jsvalue" where
  "js_get obj k = (case obj k of Some v \<Rightarrow> String v | None \<Rightarrow> Object_prototype k)"

text \<open>
  The assignment \<open>answers[k] = v\<close> creates or updates an own property, except for
  \<open>__proto__\<close>: that name reaches the inherited setter, which ignores a string.
\<close>

definition js_set :: "answer_map \<Rightarrow> jsstring \<Rightarrow> jsstring \<Rightarrow> answer_map" where
  "js_set obj k v = (if k = str ''__proto__'' then obj else obj(k \<mapsto> v))"

text \<open>\<open>x ?? d\<close> replaces only \<open>undefined\<close> (and \<open>null\<close>, which no read here yields).\<close>

definition nullish :: "jsvalue \<Rightarrow> jsvalue \<Rightarrow> jsvalue" where
  "nullish x d = (case x of Undefined \<Rightarrow> d | _ \<Rightarrow> x)"

text \<open>
  The conversion to string applied by a template literal. A built-in function prints as
  V8 prints it (the engine of the desktop host).
\<close>

fun ToString :: "jsvalue \<Rightarrow> jsstring" where
  "ToString Undefined = str ''undefined''"
| "ToString (String s) = s"
| "ToString (NativeFunction n) = str ''function '' @ n @ str ''() { [native code] }''"
| "ToString ObjectPrototype = str ''[object Object]''"

section \<open>The date source\<close>

text \<open>
  Modelled from the spec: the date library \<open>moment\<close> is imported from the host and is not
  part of the repository. \<open>moment()\<close> reads the wall clock; \<open>format\<close> is modelled for
  the tokens that occur in the format strings of main.ts (\<open>YYYY\<close>, \<open>MMMM\<close>,
  \<open>MM\<close>, \<open>dddd\<close>, \<open>DD\<close>, \<open>D\<close>) with English names; any other character of a
  format string is copied.
\<close>

datatype weekday = Sunday | Monday | Tuesday | Wednesday | Thursday | Friday | Saturday

datatype month = January | February | March | April | May | June | July | August
  | September | October | November | December

record moment =
  year :: nat
  month :: month
  date :: nat
  day :: weekday

fun weekdayName :: "weekday \<Rightarrow> string" where
  "weekdayName Sunday = ''Sunday''"
| "weekdayName Monday = ''Monday''"
| "weekdayName Tuesday = ''Tuesday''"
| "weekdayName Wednesday = ''Wednesday''"
| "weekdayName Thursday = ''Thursday''"
| "weekdayName Friday = ''Friday''"
| "weekdayName Saturday = ''Saturday''"

fun monthName :: "month \<Rightarrow> string" where
  "monthName January = ''January''"
| "monthName February = ''February''"
| "monthName March = ''March''"
| "monthName April = ''April''"
| "monthName May = ''May''"
| "monthName June = ''June''"
| "monthName July = ''July''"
| "monthName August = ''August''"
| "monthName September = ''September''"
| "monthName October = ''October''"
| "monthName November = ''November''"
| "monthName December = ''December''"

fun monthNumber :: "month \<Rightarrow> nat" where
  "monthNumber January = 1"
| "monthNumber February = 2"
| "monthNumber March = 3"
| "monthNumber April = 4"
| "monthNumber May = 5"
| "monthNumber June = 6"
| "monthNumber July = 7"
| "monthNumber August = 8"
| "monthNumber September = 9"
| "monthNumber October = 10"
| "monthNumber November = 11"
| "monthNumber December = 12"

definition digit :: "nat \<Rightarrow> 16 word" where
  "digit d = of_nat (48 + d)"

function decimal :: "nat \<Rightarrow> jsstring" where
  "decimal n = (if n < 10 then [digit n] else decimal (n div 10) @ [digit (n mod 10)])"
  by pat_completeness auto
termination
  by (relation "measure id") auto

definition zeroFill :: "nat \<Rightarrow> nat \<Rightarrow> jsstring" where
  "zeroFill n targetLength = replicate (targetLength - length (decimal n)) (digit 0) @ decimal n"

function moment_format :: "string \<Rightarrow> moment \<Rightarrow> jsstring" where
  "moment_format [] m = []"
| "moment_format (c # cs) m =
     (if take 4 (c # cs) = ''YYYY'' then zeroFill (year m) 4 @ moment_format (drop 3 cs) m
      else if take 4 (c # cs) = ''MMMM'' then str (monthName (month m)) @ moment_format (drop 3 cs) m
      else if take 4 (c # cs) = ''dddd'' then str (weekdayName (day m)) @ moment_format (drop 3 cs) m
      else if take 2 (c # cs) = ''MM'' then zeroFill (monthNumber (month m)) 2 @ moment_format (drop 1 cs) m
      else if take 2 (c # cs) = ''DD'' then zeroFill (date m) 2 @ moment_format (drop 1 cs) m
      else if c = CHR ''D'' then decimal (date m) @ moment_format cs m
      else of_char c # moment_format cs m)"
  by pat_completeness auto
termination
  by (relation "measure (\<lambda>(f, m). length f)") auto

declare decimal.simps [simp del]

section \<open>The host: document store, workspace, notices\<close>

text \<open>
  Modelled from the spec: the vault, the workspace and the notice surface belong to the
  host application and are not part of the repository. The document store maps
  slash-separated paths to file contents; \<open>getAbstractFileByPath\<close> answers whether a file
  is stored at a path, \<open>create\<close> adds a file and fails when the path is taken,
  \<open>modify\<close> replaces the whole content of a stored file. A file handle is identified
  with the file's path. Every call made to the host is recorded in order.
\<close>

datatype error = TypeError | AlreadyExists | NotFound

type_synonym TFile = jsstring

datatype host_call =
    VaultGetAbstractFileByPath jsstring
  | VaultCreate jsstring jsstring
  | VaultModify TFile jsstring
  | WorkspaceGetLeaf bool
  | LeafOpenFile TFile
  | NewNotice jsstring

record host =
  files :: "jsstring \<rightharpoonup> jsstring"
  calls :: "host_call list"

definition called :: "host_call \<Rightarrow> host \<Rightarrow> host" where
  "called c h = h\<lparr>calls := calls h @ [c]\<rparr>"

definition getAbstractFileByPath :: "jsstring \<Rightarrow> host \<Rightarrow> TFile option \<times> host" where
  "getAbstractFileByPath path h =
     ((case files h path of None \<Rightarrow> None | Some _ \<Rightarrow> Some path),
      called (VaultGetAbstractFileByPath path) h)"

definition create :: "jsstring \<Rightarrow> jsstring \<Rightarrow> host \<Rightarrow> (error + TFile) \<times> host" where
  "create path data h =
     (let h' = called (VaultCreate path data) h in
      case files h path of
        Some _ \<Rightarrow> (Inl AlreadyExists, h')
      | None \<Rightarrow> (Inr path, h'\<lparr>files := (files h')(path \<mapsto> data)\<rparr>))"

definition modify :: "TFile \<Rightarrow> jsstring \<Rightarrow> host \<Rightarrow> (error + unit) \<times> host" where
  "modify file data h =
     (let h' = called (VaultModify file data) h in
      case files h file of
        None \<Rightarrow> (Inl NotFound, h')
      | Some _ \<Rightarrow> (Inr (), h'\<lparr>files := (files h')(file \<mapsto> data)\<rparr>))"

definition openInNewLeaf :: "TFile \<Rightarrow> host \<Rightarrow> host" where
  "openInNewLeaf file h = called (LeafOpenFile file) (called (WorkspaceGetLeaf True) h)"

section \<open>Writing the daily note (main.ts, lines 70 to 91)\<close>

text \<open>The resolved path, lines 72 and 73.\<close>

definition notePath :: "ReflectionSettings \<Rightarrow> moment \<Rightarrow> jsstring" where
  "notePath settings now =
     (let fileName = moment_format ''YYYY-MM-DD'' now @ str ''.md''
      in dailyFolder settings @ str ''/'' @ fileName)"

text \<open>The markdown template, lines 81 to 85: the loop appends one section per question.\<close>

definition section_md :: "answer_map \<Rightarrow> Question \<Rightarrow> jsstring" where
  "section_md ans q =
     (let v = nullish (js_get ans (q_id q)) (String [])
      in str ''### '' @ label q @ str ''\<newline>'' @ ToString v @ str ''\<newline>\<newline>'')"

definition heading_md :: "moment \<Rightarrow> jsstring" where
  "heading_md now = str ''# '' @ moment_format ''dddd, MMMM D YYYY'' now @ str ''\<newline>\<newline>''"

definition markdown :: "ReflectionSettings \<Rightarrow> moment \<Rightarrow> answer_map \<Rightarrow> jsstring" where
  "markdown settings now ans =
     foldl (\<lambda>md q. md @ section_md ans q) (heading_md now) (questions settings)"

text \<open>
  \<open>writeDailyNote\<close> reads the clock twice: \<open>now1\<close> is the reading of line 72 (the file
  name) and \<open>now2\<close> the reading of line 81 (the heading). It returns the outcome and the
  host as the calls made so far have left it; a failed call ends the procedure there.
\<close>

definition writeDailyNote ::
  "ReflectionSettings \<Rightarrow> moment \<Rightarrow> moment \<Rightarrow> answer_map \<Rightarrow> host \<Rightarrow> (error + unit) \<times> host" where
  "writeDailyNote settings now1 now2 ans h0 =
     (let path = notePath settings now1;
          (existing, h1) = getAbstractFileByPath path h0
      in case (case existing of Some f \<Rightarrow> (Inr f, h1) | None \<Rightarrow> create path [] h1) of
           (Inl e, h2) \<Rightarrow> (Inl e, h2)
         | (Inr file, h2) \<Rightarrow>
             (let md = markdown settings now2 ans
              in case modify file md h2 of
                   (Inl e, h3) \<Rightarrow> (Inl e, h3)
                 | (Inr _, h3) \<Rightarrow> (Inr (), openInNewLeaf file h3)))"

text \<open>The command's completion callback, lines 61 to 64.\<close>

definition commandCallback ::
  "ReflectionSettings \<Rightarrow> moment \<Rightarrow> moment \<Rightarrow> answer_map \<Rightarrow> host \<Rightarrow> (error + unit) \<times> host" where
  "commandCallback settings now1 now2 ans h =
     (case writeDailyNote settings now1 now2 ans h of
        (Inl e, h') \<Rightarrow> (Inl e, h')
      | (Inr _, h') \<Rightarrow> (Inr (), called (NewNotice (str ''Journal saved '' @ [0x2714, 0xFE0F])) h'))"

section \<open>The form (main.ts, lines 102 to 157)\<close>

datatype element =
    H2 jsstring
  | H3 jsstring
  | TextAreaComponent jsstring
  | TextComponent jsstring
  | DropdownComponent jsstring "(jsstring \<times> jsstring) list"
  | ButtonComponent jsstring

text \<open>
  The loop of lines 119 to 143 over the questions, appending to the content element. Each
  input is tagged with the id its change handler writes to. For a dropdown the component is
  created first and \<open>q.choices!.forEach\<close> then reads the choices: when they are absent the
  call on \<open>undefined\<close> throws a TypeError and the loop ends there.
\<close>

fun renderQuestions :: "Question list \<Rightarrow> element list \<Rightarrow> (error + unit) \<times> element list" where
  "renderQuestions [] contentEl = (Inr (), contentEl)"
| "renderQuestions (q # qs) contentEl =
     (let el = contentEl @ [H3 (label q)] in
      case q_type q of
        Text \<Rightarrow> renderQuestions qs (el @ [TextAreaComponent (q_id q)])
      | Number \<Rightarrow> renderQuestions qs (el @ [TextComponent (q_id q)])
      | Dropdown \<Rightarrow>
          (case choices q of
             None \<Rightarrow> (Inl TypeError, el @ [DropdownComponent (q_id q) []])
           | Some cs \<Rightarrow>
               renderQuestions qs (el @ [DropdownComponent (q_id q) (map (\<lambda>c. (c, c)) cs)])))"

definition onOpen :: "ReflectionSettings \<Rightarrow> moment \<Rightarrow> (error + unit) \<times> element list" where
  "onOpen settings now =
     (let title = H2 (str ''Daily Reflection '' @ [0x2013] @ str '' '' @ moment_format ''YYYY-MM-DD'' now)
      in case renderQuestions (questions settings) [title] of
           (Inl e, el) \<Rightarrow> (Inl e, el)
         | (Inr _, el) \<Rightarrow> (Inr (), el @ [ButtonComponent (str ''Save'')]))"

text \<open>
  A form session. While the form is open the user can change the input of a question
  (the handler of lines 127, 133 and 139 assigns the value), click Save (lines 148 to 151:
  close, then call \<open>onSubmit\<close> with the answers), or dismiss the form (the host calls
  \<open>onClose\<close>, lines 154 to 156). Closing empties the content element, so a closed form
  has no input and no button left and takes no further event. The completion callback is
  a parameter; it acts on whatever lies outside the form.
\<close>

datatype event = Change jsstring jsstring | ClickSave | Dismiss

record ReflectionModal =
  answers :: answer_map
  isOpen :: bool

definition newModal :: ReflectionModal where
  "newModal = \<lparr>answers = Map.empty, isOpen = True\<rparr>"

fun handle :: "(answer_map \<Rightarrow> 'w \<Rightarrow> 'w) \<Rightarrow> ReflectionModal \<times> 'w \<Rightarrow> event \<Rightarrow> ReflectionModal \<times> 'w" where
  "handle onSubmit (m, w) ev =
     (if \<not> isOpen m then (m, w)
      else case ev of
        Change k v \<Rightarrow> (m\<lparr>answers := js_set (answers m) k v\<rparr>, w)
      | ClickSave \<Rightarrow> (m\<lparr>isOpen := False\<rparr>, onSubmit (answers m) w)
      | Dismiss \<Rightarrow> (m\<lparr>isOpen := False\<rparr>, w))"

definition session :: "(answer_map \<Rightarrow> 'w \<Rightarrow> 'w) \<Rightarrow> event list \<Rightarrow> 'w \<Rightarrow> ReflectionModal \<times> 'w" where
  "session onSubmit evs w = foldl (handle onSubmit) (newModal, w) evs"

text \<open>Two completion callbacks: one that records its invocations, and the plugin's own.\<close>

definition recordCall :: "answer_map \<Rightarrow> answer_map list \<Rightarrow> answer_map list" where
  "recordCall ans log = log @ [ans]"

definition pluginSubmit :: "ReflectionSettings \<Rightarrow> moment \<Rightarrow> moment \<Rightarrow> answer_map \<Rightarrow> host \<Rightarrow> host" where
  "pluginSubmit settings now1 now2 ans h = snd (commandCallback settings now1 now2 ans h)"

section \<open>The settings tab (main.ts, lines 159 to 185)\<close>

record plugin =
  settings :: ReflectionSettings
  data :: "PersistedData option"

definition saveSettings :: "plugin \<Rightarrow> plugin" where
  "saveSettings p =
     p\<lparr>data := Some \<lparr>p_dailyFolder = Some (dailyFolder (settings p)),
                      p_questions = Some (questions (settings p))\<rparr>\<rparr>"

text \<open>The change handler of the folder field, lines 176 to 179.\<close>

definition folder_onChange :: "jsstring \<Rightarrow> plugin \<Rightarrow> plugin" where
  "folder_onChange v p =
     saveSettings (p\<lparr>settings := (settings p)\<lparr>dailyFolder := or_else (trim v) (str ''Daily'')\<rparr>\<rparr>)"

section \<open>Vocabulary of the claims\<close>

text \<open>
  A form session is described by its events. The events before the first click or dismissal
  are changes of inputs; the answers accumulated by them are the assignments applied in
  order to the empty answer map. The session is submitted when the first event that is not
  a change is the click on Save.
\<close>

fun isChange :: "event \<Rightarrow> bool" where
  "isChange (Change k v) = True"
| "isChange ClickSave = False"
| "isChange Dismiss = False"

fun assign :: "answer_map \<Rightarrow> event \<Rightarrow> answer_map" where
  "assign a (Change k v) = js_set a k v"
| "assign a ClickSave = a"
| "assign a Dismiss = a"

definition accumulated :: "event list \<Rightarrow> answer_map" where
  "accumulated evs = foldl assign Map.empty (takeWhile isChange evs)"

definition submitted :: "event list \<Rightarrow> bool" where
  "submitted evs = (case dropWhile isChange evs of ClickSave # _ \<Rightarrow> True | _ \<Rightarrow> False)"

text \<open>
  The controls the form is expected to show for one question: its label as a heading and
  one input of the question's kind, a dropdown offering the choices in their order.
\<close>

definition expected_controls :: "Question \<Rightarrow> element list" where
  "expected_controls q =
     [H3 (label q),
      (case q_type q of
         Text \<Rightarrow> TextAreaComponent (q_id q)
       | Number \<Rightarrow> TextComponent (q_id q)
       | Dropdown \<Rightarrow>
           DropdownComponent (q_id q)
             (map (\<lambda>c. (c, c)) (case choices q of None \<Rightarrow> [] | Some cs \<Rightarrow> cs)))]"

text \<open>The number a string of decimal digits denotes, to read a formatted date back.\<close>

definition read_decimal :: "jsstring \<Rightarrow> nat" where
  "read_decimal s = foldl (\<lambda>n c. 10 * n + (unat c - 48)) 0 s"

section \<open>Sample inputs\<close>

definition date_2024_03_07 :: moment where
  "date_2024_03_07 = \<lparr>year = 2024, month = March, date = 7, day = Thursday\<rparr>"

definition emptyHost :: host where
  "emptyHost = \<lparr>files = Map.empty, calls = []\<rparr>"

definition twoQuestions :: ReflectionSettings where
  "twoQuestions =
     \<lparr>dailyFolder = str ''Daily'',
      questions = [question ''todo'' ([0x2705] @ str '' What I want to accomplish today'') Text,
                   question ''dreams'' ([0xD83D, 0xDE34] @ str '' Dreams'') Text]\<rparr>"

definition hostWithNote :: host where
  "hostWithNote =
     \<lparr>files = [notePath twoQuestions date_2024_03_07 \<mapsto> str ''edited by hand''], calls = []\<rparr>"

definition freshPlugin :: plugin where
  "freshPlugin = \<lparr>settings = DEFAULT_SETTINGS, data = None\<rparr>"

definition malformedSettings :: ReflectionSettings where
  "malformedSettings =
     \<lparr>dailyFolder = str ''Daily'',
      questions = [question ''todo'' (str ''To do'') Text,
                   question ''mood'' (str ''Mood'') Dropdown]\<rparr>"

section \<open>The rendered body\<close>

lemma foldl_append_sections: "foldl (\<lambda>md q. md @ f q) acc qs = acc @ concat (map f qs)"
  by (induction qs arbitrary: acc) simp_all

lemma markdown_sections:
  "markdown s now a = heading_md now @ concat (map (section_md a) (questions s))"
  by (simp add: markdown_def foldl_append_sections)

lemma section_md_cong:
  "a1 (q_id q) = a2 (q_id q) \<Longrightarrow> section_md a1 q = section_md a2 q"
  by (simp add: section_md_def js_get_def)

text \<open>
  For a question whose id names no property of \<open>Object.prototype\<close> the section holds the
  stored answer, or the empty string when the answer map has no entry under the id.
\<close>

lemma section_md_plain_id:
  "Object_prototype (q_id q) = Undefined \<Longrightarrow>
   section_md a q
   = str ''### '' @ label q @ str ''\<newline>''
     @ (case a (q_id q) of None \<Rightarrow> [] | Some v \<Rightarrow> v) @ str ''\<newline>\<newline>''"
  by (simp add: section_md_def js_get_def nullish_def split: option.splits)

lemma markdown_plain_ids:
  assumes "\<forall>q \<in> set (questions s). Object_prototype (q_id q) = Undefined"
  shows "markdown s now a
   = heading_md now
     @ concat (map (\<lambda>q. str ''### '' @ label q @ str ''\<newline>''
                      @ (case a (q_id q) of None \<Rightarrow> [] | Some v \<Rightarrow> v) @ str ''\<newline>\<newline>'')
                 (questions s))"
proof -
  have "map (section_md a) (questions s)
        = map (\<lambda>q. str ''### '' @ label q @ str ''\<newline>''
                 @ (case a (q_id q) of None \<Rightarrow> [] | Some v \<Rightarrow> v) @ str ''\<newline>\<newline>'')
            (questions s)"
  proof (rule map_cong [OF refl])
    fix q assume "q \<in> set (questions s)"
    with assms have "Object_prototype (q_id q) = Undefined" by blast
    then show "section_md a q
        = str ''### '' @ label q @ str ''\<newline>''
          @ (case a (q_id q) of None \<Rightarrow> [] | Some v \<Rightarrow> v) @ str ''\<newline>\<newline>''"
      by (rule section_md_plain_id)
  qed
  then show ?thesis
    by (simp only: markdown_sections)
qed

text \<open>
  Claim C1. The body is the date heading followed by one section per question in the order
  of the settings, and a question whose id is absent from the answer map gets an empty
  body line. The code departs from this for an id that names a property of
  \<open>Object.prototype\<close>: with the single question id \<open>constructor\<close> and an answer map
  without entries, the read \<open>answers[q.id]\<close> finds the inherited constructor function,
  \<open>??\<close> keeps it, and the body line is the function's source text instead of the empty
  string.
\<close>

theorem markdown_inherited_property:
  "markdown \<lparr>dailyFolder = str ''Daily'', questions = [question ''constructor'' (str ''Notes'') Text]\<rparr>
     date_2024_03_07 Map.empty
   = heading_md date_2024_03_07
     @ str ''### Notes\<newline>function Object() { [native code] }\<newline>\<newline>''"
  by (simp add: markdown_sections section_md_def js_get_def nullish_def question_def
      Object_prototype_def str_def)

text \<open>
  Claim C2. With the answer map \<open>{todo: "Ship the spec"}\<close> and the two questions
  \<open>todo\<close> and \<open>dreams\<close>, the rendered body is the date heading, then the section of the
  first question with its answer, then the section of the second question with an empty
  body line.
\<close>

theorem markdown_example:
  "markdown
     \<lparr>dailyFolder = folder,
      questions = [question ''todo'' ([0x2705] @ str '' What I want to accomplish today'') Text,
                   question ''dreams'' ([0xD83D, 0xDE34] @ str '' Dreams'') Text]\<rparr>
     now [str ''todo'' \<mapsto> str ''Ship the spec'']
   = heading_md now
     @ ((str ''### '' @ [0x2705] @ str '' What I want to accomplish today\<newline>Ship the spec\<newline>\<newline>'')
     @ (str ''### '' @ [0xD83D, 0xDE34] @ str '' Dreams\<newline>\<newline>\<newline>''))"
  by (simp add: markdown_sections section_md_def js_get_def nullish_def question_def
      Object_prototype_def str_def)

theorem markdown_example_witness:
  "markdown twoQuestions date_2024_03_07 [str ''todo'' \<mapsto> str ''Ship the spec'']
   = str ''# Thursday, March 7 2024\<newline>\<newline>''
     @ ((str ''### '' @ [0x2705] @ str '' What I want to accomplish today\<newline>Ship the spec\<newline>\<newline>'')
     @ (str ''### '' @ [0xD83D, 0xDE34] @ str '' Dreams\<newline>\<newline>\<newline>''))"
proof -
  have h: "heading_md date_2024_03_07 = str ''# Thursday, March 7 2024\<newline>\<newline>''"
    by (simp add: heading_md_def date_2024_03_07_def zeroFill_def decimal.simps digit_def str_def)
  show ?thesis
    using markdown_example [of "str ''Daily''" date_2024_03_07]
    unfolding twoQuestions_def h by simp
qed

text \<open>
  Claim C10. Two answer maps that agree on the id of every configured question give the
  same rendered body, and \<open>writeDailyNote\<close> leaves the host in the same state for both:
  entries under other keys have no effect.
\<close>

theorem markdown_ignores_other_keys:
  assumes "\<forall>q \<in> set (questions s). a1 (q_id q) = a2 (q_id q)"
  shows "markdown s now a1 = markdown s now a2
       \<and> writeDailyNote s now1 now a1 h = writeDailyNote s now1 now a2 h"
proof -
  have "map (section_md a1) (questions s) = map (section_md a2) (questions s)"
  proof (rule map_cong [OF refl])
    fix q assume "q \<in> set (questions s)"
    with assms have "a1 (q_id q) = a2 (q_id q)" by blast
    then show "section_md a1 q = section_md a2 q" by (rule section_md_cong)
  qed
  then have eq: "markdown s now a1 = markdown s now a2"
    by (simp only: markdown_sections)
  show ?thesis
    unfolding writeDailyNote_def eq by simp
qed

theorem markdown_ignores_other_keys_witness:
  "list_all (\<lambda>q. [str ''todo'' \<mapsto> str ''x'', str ''extra'' \<mapsto> str ''y''] (q_id q)
                  = [str ''todo'' \<mapsto> str ''x''] (q_id q))
     (questions DEFAULT_SETTINGS)
   \<and> markdown DEFAULT_SETTINGS date_2024_03_07 [str ''todo'' \<mapsto> str ''x'', str ''extra'' \<mapsto> str ''y'']
     = markdown DEFAULT_SETTINGS date_2024_03_07 [str ''todo'' \<mapsto> str ''x'']
   \<and> writeDailyNote DEFAULT_SETTINGS date_2024_03_07 date_2024_03_07
         [str ''todo'' \<mapsto> str ''x'', str ''extra'' \<mapsto> str ''y''] emptyHost
     = writeDailyNote DEFAULT_SETTINGS date_2024_03_07 date_2024_03_07
         [str ''todo'' \<mapsto> str ''x''] emptyHost"
proof -
  have h: "\<forall>q \<in> set (questions DEFAULT_SETTINGS).
      [str ''todo'' \<mapsto> str ''x'', str ''extra'' \<mapsto> str ''y''] (q_id q)
      = [str ''todo'' \<mapsto> str ''x''] (q_id q)"
    by (simp add: DEFAULT_SETTINGS_def question_def dropdown_def str_def)
  from markdown_ignores_other_keys [OF h] h show ?thesis
    unfolding list_all_iff by blast
qed

section \<open>Loading and editing the settings\<close>

text \<open>
  Claim C3. Loading is a shallow merge of the persisted record over the defaults: with no
  persisted record the settings are the defaults; a key absent from the record keeps the
  default's value; a key present in the record replaces the default's value entirely, and
  a persisted question list becomes the question list as it is, whatever it holds.
\<close>

theorem loadSettings_shallow_merge:
  "loadSettings None = DEFAULT_SETTINGS
   \<and> dailyFolder (loadSettings (Some \<lparr>p_dailyFolder = None, p_questions = pq\<rparr>))
     = dailyFolder DEFAULT_SETTINGS
   \<and> dailyFolder (loadSettings (Some \<lparr>p_dailyFolder = Some f, p_questions = pq\<rparr>)) = f
   \<and> questions (loadSettings (Some \<lparr>p_dailyFolder = pf, p_questions = None\<rparr>))
     = questions DEFAULT_SETTINGS
   \<and> questions (loadSettings (Some \<lparr>p_dailyFolder = pf, p_questions = Some qs\<rparr>)) = qs"
  by (simp add: loadSettings_def Object_assign_def)

theorem loadSettings_shallow_merge_witness:
  "dailyFolder (loadSettings (Some \<lparr>p_dailyFolder = Some (str ''Journal''), p_questions = None\<rparr>))
     = str ''Journal''
   \<and> questions (loadSettings (Some \<lparr>p_dailyFolder = Some (str ''Journal''), p_questions = None\<rparr>))
     = questions DEFAULT_SETTINGS
   \<and> dailyFolder (loadSettings (Some \<lparr>p_dailyFolder = None,
        p_questions = Some [question ''mood'' (str ''Mood'') Text]\<rparr>))
     = dailyFolder DEFAULT_SETTINGS
   \<and> questions (loadSettings (Some \<lparr>p_dailyFolder = None,
        p_questions = Some [question ''mood'' (str ''Mood'') Text]\<rparr>))
     = [question ''mood'' (str ''Mood'') Text]"
  using
    loadSettings_shallow_merge [of None "str ''Journal''" "Some (str ''Journal'')" "[]"]
    loadSettings_shallow_merge [of "Some [question ''mood'' (str ''Mood'') Text]" "[]" None
      "[question ''mood'' (str ''Mood'') Text]"]
  by simp

lemma rev_dropWhile_takeWhile:
  "xs = rev (dropWhile P (rev xs)) @ rev (takeWhile P (rev xs))"
proof -
  have "rev (rev xs) = rev (takeWhile P (rev xs) @ dropWhile P (rev xs))"
    by (simp only: takeWhile_dropWhile_id)
  then show ?thesis
    by (simp only: rev_rev_ident rev_append)
qed

lemma trim_decompose:
  "\<exists>pre post. v = pre @ trim v @ post
     \<and> (\<forall>c \<in> set pre. is_white c) \<and> (\<forall>c \<in> set post. is_white c)"
proof -
  let ?u = "dropWhile is_white v"
  let ?pre = "takeWhile is_white v"
  let ?post = "rev (takeWhile is_white (rev ?u))"
  have u: "?u = trim v @ ?post"
    unfolding trim_def by (rule rev_dropWhile_takeWhile)
  have "v = ?pre @ ?u"
    by simp
  with u have "v = ?pre @ trim v @ ?post"
    by simp
  moreover have "\<forall>c \<in> set ?pre. is_white c"
    by (auto dest: set_takeWhileD)
  moreover have "\<forall>c \<in> set ?post. is_white c"
    by (auto dest: set_takeWhileD)
  ultimately show ?thesis
    by blast
qed

lemma trim_empty_iff: "trim v = [] \<longleftrightarrow> (\<forall>c \<in> set v. is_white c)"
proof
  assume "trim v = []"
  then have "\<forall>c \<in> set (dropWhile is_white v). is_white c"
    by (simp add: trim_def dropWhile_eq_Nil_conv)
  then have "dropWhile is_white v = []"
    using hd_dropWhile [of is_white v] hd_in_set [of "dropWhile is_white v"] by blast
  then show "\<forall>c \<in> set v. is_white c"
    by (simp add: dropWhile_eq_Nil_conv)
next
  assume "\<forall>c \<in> set v. is_white c"
  then have e: "dropWhile is_white v = []"
    by (simp add: dropWhile_eq_Nil_conv)
  show "trim v = []"
    unfolding trim_def e by simp
qed

lemma trim_ends:
  assumes "trim v \<noteq> []"
  shows "\<not> is_white (hd (trim v)) \<and> \<not> is_white (last (trim v))"
proof -
  let ?u = "dropWhile is_white v"
  let ?w = "dropWhile is_white (rev ?u)"
  have w: "?w \<noteq> []"
    using assms by (simp add: trim_def)
  have u: "?u \<noteq> []"
  proof
    assume e: "?u = []"
    have "?w = []"
      unfolding e by simp
    with w show False
      by contradiction
  qed
  have "last (trim v) = hd ?w"
    using w by (simp add: trim_def last_rev)
  then have l: "\<not> is_white (last (trim v))"
    using hd_dropWhile [OF w] by simp
  have "rev ?u = takeWhile is_white (rev ?u) @ ?w"
    by simp
  then have "last (rev ?u) = last ?w"
    using w by (metis last_appendR)
  then have "hd ?u = last ?w"
    using u by (simp add: last_rev)
  moreover have "hd (trim v) = last ?w"
    using w by (simp add: trim_def hd_rev)
  ultimately have "\<not> is_white (hd (trim v))"
    using hd_dropWhile [OF u] by simp
  with l show ?thesis
    by simp
qed

text \<open>
  Claim C8. For every string entered in the folder field, the stored folder, in the
  settings and in the saved record, is the entered string without its surrounding
  whitespace: the entered string is whitespace, then the trimmed string, then whitespace,
  and the trimmed string neither starts nor ends with whitespace. When nothing is left,
  which is when the entered string is all whitespace, the stored folder is \<open>Daily\<close>. The
  loaded folder is \<open>Daily\<close> too when the persisted record has no folder.
\<close>

theorem folder_onChange_trims:
  "dailyFolder (settings (folder_onChange v p)) = (if trim v = [] then str ''Daily'' else trim v)
   \<and> data (folder_onChange v p)
     = Some \<lparr>p_dailyFolder = Some (if trim v = [] then str ''Daily'' else trim v),
             p_questions = Some (questions (settings p))\<rparr>
   \<and> (\<exists>pre post. v = pre @ trim v @ post
         \<and> (\<forall>c \<in> set pre. is_white c) \<and> (\<forall>c \<in> set post. is_white c))
   \<and> (trim v \<noteq> [] \<longrightarrow> \<not> is_white (hd (trim v)) \<and> \<not> is_white (last (trim v)))
   \<and> (trim v = [] \<longleftrightarrow> (\<forall>c \<in> set v. is_white c))
   \<and> dailyFolder (loadSettings None) = str ''Daily''
   \<and> dailyFolder (loadSettings (Some \<lparr>p_dailyFolder = None, p_questions = pq\<rparr>)) = str ''Daily''"
proof (intro conjI)
  show "dailyFolder (settings (folder_onChange v p)) = (if trim v = [] then str ''Daily'' else trim v)"
    by (simp add: folder_onChange_def saveSettings_def or_else_def)
  show "data (folder_onChange v p)
     = Some \<lparr>p_dailyFolder = Some (if trim v = [] then str ''Daily'' else trim v),
             p_questions = Some (questions (settings p))\<rparr>"
    by (simp add: folder_onChange_def saveSettings_def or_else_def)
  show "\<exists>pre post. v = pre @ trim v @ post
         \<and> (\<forall>c \<in> set pre. is_white c) \<and> (\<forall>c \<in> set post. is_white c)"
    by (rule trim_decompose)
  show "trim v \<noteq> [] \<longrightarrow> \<not> is_white (hd (trim v)) \<and> \<not> is_white (last (trim v))"
    using trim_ends by blast
  show "trim v = [] \<longleftrightarrow> (\<forall>c \<in> set v. is_white c)"
    by (rule trim_empty_iff)
  show "dailyFolder (loadSettings None) = str ''Daily''"
    by (simp add: loadSettings_def Object_assign_def DEFAULT_SETTINGS_def)
  show "dailyFolder (loadSettings (Some \<lparr>p_dailyFolder = None, p_questions = pq\<rparr>)) = str ''Daily''"
    by (simp add: loadSettings_def Object_assign_def DEFAULT_SETTINGS_def)
qed

theorem folder_onChange_trims_witness:
  "trim ([0x20, 0x09] @ str ''Journal/My notes'' @ [0xA0, 0x0A]) = str ''Journal/My notes''
   \<and> dailyFolder (settings (folder_onChange ([0x20, 0x09] @ str ''Journal/My notes'' @ [0xA0, 0x0A]) freshPlugin))
     = str ''Journal/My notes''
   \<and> list_all is_white (str ''   '' @ [0x3000])
   \<and> trim (str ''   '' @ [0x3000]) = []
   \<and> dailyFolder (settings (folder_onChange (str ''   '' @ [0x3000]) freshPlugin)) = str ''Daily''"
proof -
  have a: "trim ([0x20, 0x09] @ str ''Journal/My notes'' @ [0xA0, 0x0A]) = str ''Journal/My notes''"
    by (simp add: trim_def is_white_def str_def)
  have b: "\<forall>c \<in> set (str ''   '' @ [0x3000]). is_white c"
    by (simp add: is_white_def str_def)
  show ?thesis
    using a b
      folder_onChange_trims [of "[0x20, 0x09] @ str ''Journal/My notes'' @ [0xA0, 0x0A]" freshPlugin]
      folder_onChange_trims [of "str ''   '' @ [0x3000]" freshPlugin]
    by (simp add: str_def list_all_iff)
qed

section \<open>Writing the note\<close>

text \<open>
  \<open>zeroFill n k\<close> is the decimal numeral of \<open>n\<close>, padded with zeros on the left to at
  least \<open>k\<close> digits.
\<close>

lemma unat_digit:
  assumes "d < 10"
  shows "unat (digit d) = 48 + d"
proof -
  have "unat (of_nat (48 + d) :: 16 word) = (48 + d) mod 2 ^ LENGTH(16)"
    by (simp only: unat_of_nat)
  with assms show ?thesis
    unfolding digit_def by simp
qed

lemma read_decimal_snoc: "read_decimal (s @ [c]) = 10 * read_decimal s + (unat c - 48)"
  by (simp add: read_decimal_def)

lemma read_decimal_decimal: "read_decimal (decimal n) = n"
proof (induction n rule: decimal.induct)
  case (1 n)
  show ?case
  proof (cases "n < 10")
    case True
    then show ?thesis
      by (simp add: decimal.simps [of n] read_decimal_def unat_digit)
  next
    case False
    with 1 have "read_decimal (decimal (n div 10)) = n div 10"
      by simp
    with False show ?thesis
      by (simp add: decimal.simps [of n] read_decimal_snoc unat_digit)
  qed
qed

lemma read_decimal_zeros: "read_decimal (replicate k (digit 0) @ s) = read_decimal s"
proof (induction k)
  case 0
  then show ?case by simp
next
  case (Suc k)
  have "read_decimal (digit 0 # t) = read_decimal t" for t
    by (simp add: read_decimal_def unat_digit)
  with Suc show ?case by simp
qed

lemma read_decimal_zeroFill: "read_decimal (zeroFill n k) = n"
  by (simp add: zeroFill_def read_decimal_zeros read_decimal_decimal)

lemma length_zeroFill: "length (zeroFill n k) = max k (length (decimal n))"
  by (simp add: zeroFill_def)

lemma decimal_digits: "c \<in> set (decimal n) \<Longrightarrow> \<exists>d < 10. c = digit d"
proof (induction n rule: decimal.induct)
  case (1 n)
  show ?case
  proof (cases "n < 10")
    case True
    with 1(2) show ?thesis
      by (auto simp: decimal.simps [of n])
  next
    case False
    with 1 show ?thesis
      by (auto simp: decimal.simps [of n] intro: exI [of _ "n mod 10"])
  qed
qed

lemma moment_format_iso:
  "moment_format ''YYYY-MM-DD'' m
   = zeroFill (year m) 4 @ str ''-'' @ zeroFill (monthNumber (month m)) 2 @ str ''-''
     @ zeroFill (date m) 2"
  unfolding str_def by simp

lemma notePath_iso:
  "notePath s now
   = dailyFolder s @ str ''/'' @ zeroFill (year now) 4 @ str ''-''
     @ zeroFill (monthNumber (month now)) 2 @ str ''-'' @ zeroFill (date now) 2 @ str ''.md''"
  by (simp add: notePath_def str_def)

lemma writeDailyNote_absent:
  assumes "files h (notePath s now1) = None"
  shows "writeDailyNote s now1 now2 a h
   = (Inr (),
      \<lparr>files = (files h)(notePath s now1 \<mapsto> markdown s now2 a),
       calls = calls h @
         [VaultGetAbstractFileByPath (notePath s now1),
          VaultCreate (notePath s now1) [],
          VaultModify (notePath s now1) (markdown s now2 a),
          WorkspaceGetLeaf True,
          LeafOpenFile (notePath s now1)]\<rparr>)"
  using assms
  by (simp add: writeDailyNote_def getAbstractFileByPath_def create_def modify_def
      openInNewLeaf_def called_def Let_def)

lemma writeDailyNote_present:
  assumes "files h (notePath s now1) = Some old"
  shows "writeDailyNote s now1 now2 a h
   = (Inr (),
      \<lparr>files = (files h)(notePath s now1 \<mapsto> markdown s now2 a),
       calls = calls h @
         [VaultGetAbstractFileByPath (notePath s now1),
          VaultModify (notePath s now1) (markdown s now2 a),
          WorkspaceGetLeaf True,
          LeafOpenFile (notePath s now1)]\<rparr>)"
  using assms
  by (simp add: writeDailyNote_def getAbstractFileByPath_def create_def modify_def
      openInNewLeaf_def called_def Let_def)

lemma writeDailyNote_files:
  "files (snd (writeDailyNote s now1 now2 a h)) = (files h)(notePath s now1 \<mapsto> markdown s now2 a)"
  by (cases "files h (notePath s now1)") (simp_all add: writeDailyNote_absent writeDailyNote_present)

lemma writeDailyNote_returns: "fst (writeDailyNote s now1 now2 a h) = Inr ()"
  by (cases "files h (notePath s now1)") (simp_all add: writeDailyNote_absent writeDailyNote_present)

text \<open>
  Claim C5. The note's path is the folder of the settings, a slash, the date read at write
  time as four-digit year, two-digit month and two-digit day joined by hyphens, and the
  suffix \<open>.md\<close>; the file that \<open>writeDailyNote\<close> writes is the one at this path. With the
  folder \<open>Daily\<close> on 7 March 2024 the path is \<open>Daily/2024-03-07.md\<close>.
\<close>

theorem notePath_folder_date:
  "notePath s now
     = dailyFolder s @ str ''/'' @ zeroFill (year now) 4 @ str ''-''
       @ zeroFill (monthNumber (month now)) 2 @ str ''-'' @ zeroFill (date now) 2 @ str ''.md''
   \<and> files (snd (writeDailyNote s now now2 a h)) = (files h)(notePath s now \<mapsto> markdown s now2 a)
   \<and> notePath \<lparr>dailyFolder = str ''Daily'', questions = qs\<rparr>
        \<lparr>year = 2024, month = March, date = 7, day = wd\<rparr> = str ''Daily/2024-03-07.md''"
proof (intro conjI)
  show "notePath s now
     = dailyFolder s @ str ''/'' @ zeroFill (year now) 4 @ str ''-''
       @ zeroFill (monthNumber (month now)) 2 @ str ''-'' @ zeroFill (date now) 2 @ str ''.md''"
    by (rule notePath_iso)
  show "files (snd (writeDailyNote s now now2 a h)) = (files h)(notePath s now \<mapsto> markdown s now2 a)"
    by (rule writeDailyNote_files)
  show "notePath \<lparr>dailyFolder = str ''Daily'', questions = qs\<rparr>
        \<lparr>year = 2024, month = March, date = 7, day = wd\<rparr> = str ''Daily/2024-03-07.md''"
    by (simp add: notePath_iso zeroFill_def decimal.simps digit_def str_def)
qed

theorem notePath_folder_date_witness:
  "notePath DEFAULT_SETTINGS date_2024_03_07 = str ''Daily/2024-03-07.md''
   \<and> files (snd (writeDailyNote DEFAULT_SETTINGS date_2024_03_07 date_2024_03_07 Map.empty emptyHost))
       (str ''Daily/2024-03-07.md'')
     = Some (markdown DEFAULT_SETTINGS date_2024_03_07 Map.empty)"
proof -
  have p: "notePath DEFAULT_SETTINGS date_2024_03_07 = str ''Daily/2024-03-07.md''"
    unfolding DEFAULT_SETTINGS_def date_2024_03_07_def
    by (rule notePath_folder_date [THEN conjunct2, THEN conjunct2])
  show ?thesis
    using notePath_folder_date [of DEFAULT_SETTINGS date_2024_03_07 date_2024_03_07 Map.empty emptyHost]
    by (simp add: p)
qed

text \<open>
  Claim C6. \<open>writeDailyNote\<close> first asks the store for a file at the resolved path. When
  there is none it creates a file with empty content at that path and then replaces the
  content with the rendered body; when there is one it makes no creation and replaces the
  content of the existing file. Either way the file then holds the rendered body, whatever
  it held before, and is opened in a new leaf.
\<close>

theorem writeDailyNote_existence_check:
  "writeDailyNote s now1 now2 a h
   = (Inr (),
      \<lparr>files = (files h)(notePath s now1 \<mapsto> markdown s now2 a),
       calls = calls h @
         (if files h (notePath s now1) = None
          then [VaultGetAbstractFileByPath (notePath s now1),
                VaultCreate (notePath s now1) [],
                VaultModify (notePath s now1) (markdown s now2 a),
                WorkspaceGetLeaf True,
                LeafOpenFile (notePath s now1)]
          else [VaultGetAbstractFileByPath (notePath s now1),
                VaultModify (notePath s now1) (markdown s now2 a),
                WorkspaceGetLeaf True,
                LeafOpenFile (notePath s now1)])\<rparr>)"
  by (cases "files h (notePath s now1)") (simp_all add: writeDailyNote_absent writeDailyNote_present)

theorem writeDailyNote_existence_check_witness:
  "files emptyHost (notePath twoQuestions date_2024_03_07) = None
   \<and> calls (snd (writeDailyNote twoQuestions date_2024_03_07 date_2024_03_07 Map.empty emptyHost))
     = [VaultGetAbstractFileByPath (notePath twoQuestions date_2024_03_07),
        VaultCreate (notePath twoQuestions date_2024_03_07) [],
        VaultModify (notePath twoQuestions date_2024_03_07)
          (markdown twoQuestions date_2024_03_07 Map.empty),
        WorkspaceGetLeaf True,
        LeafOpenFile (notePath twoQuestions date_2024_03_07)]
   \<and> files hostWithNote (notePath twoQuestions date_2024_03_07) = Some (str ''edited by hand'')
   \<and> calls (snd (writeDailyNote twoQuestions date_2024_03_07 date_2024_03_07 Map.empty hostWithNote))
     = [VaultGetAbstractFileByPath (notePath twoQuestions date_2024_03_07),
        VaultModify (notePath twoQuestions date_2024_03_07)
          (markdown twoQuestions date_2024_03_07 Map.empty),
        WorkspaceGetLeaf True,
        LeafOpenFile (notePath twoQuestions date_2024_03_07)]
   \<and> files (snd (writeDailyNote twoQuestions date_2024_03_07 date_2024_03_07 Map.empty hostWithNote))
       (notePath twoQuestions date_2024_03_07)
     = Some (markdown twoQuestions date_2024_03_07 Map.empty)"
proof -
  have a: "files emptyHost (notePath twoQuestions date_2024_03_07) = None"
    by (simp add: emptyHost_def)
  have b: "files hostWithNote (notePath twoQuestions date_2024_03_07) = Some (str ''edited by hand'')"
    by (simp add: hostWithNote_def)
  have c: "calls emptyHost = []" "calls hostWithNote = []"
    by (simp_all add: emptyHost_def hostWithNote_def)
  show ?thesis
    using a b c
      writeDailyNote_existence_check [of twoQuestions date_2024_03_07 date_2024_03_07 Map.empty emptyHost]
      writeDailyNote_existence_check [of twoQuestions date_2024_03_07 date_2024_03_07 Map.empty hostWithNote]
    by simp
qed

text \<open>
  Claim C4. From any state of the store, two writes on the same calendar day, the first
  with one answer map and the second with another, leave every file of the store as the
  second write alone leaves it, and the day's note holds exactly the body rendered from the
  second answer map.
\<close>

theorem writeDailyNote_last_write_wins:
  assumes "year t1 = year t2" and "month t1 = month t2" and "date t1 = date t2"
  shows "files (snd (writeDailyNote s t2 u2 a2 (snd (writeDailyNote s t1 u1 a1 h))))
         = files (snd (writeDailyNote s t2 u2 a2 h))
       \<and> files (snd (writeDailyNote s t2 u2 a2 (snd (writeDailyNote s t1 u1 a1 h)))) (notePath s t2)
         = Some (markdown s u2 a2)"
proof -
  have "notePath s t1 = notePath s t2"
    using assms by (simp add: notePath_iso)
  then show ?thesis
    by (simp add: writeDailyNote_files)
qed

theorem writeDailyNote_last_write_wins_witness:
  "year date_2024_03_07 = year date_2024_03_07
   \<and> month date_2024_03_07 = month date_2024_03_07
   \<and> date date_2024_03_07 = date date_2024_03_07
   \<and> files (snd (writeDailyNote twoQuestions date_2024_03_07 date_2024_03_07 [str ''dreams'' \<mapsto> str ''none'']
        (snd (writeDailyNote twoQuestions date_2024_03_07 date_2024_03_07
               [str ''todo'' \<mapsto> str ''Ship the spec''] emptyHost))))
     = files (snd (writeDailyNote twoQuestions date_2024_03_07 date_2024_03_07
                     [str ''dreams'' \<mapsto> str ''none''] emptyHost))
   \<and> files (snd (writeDailyNote twoQuestions date_2024_03_07 date_2024_03_07 [str ''dreams'' \<mapsto> str ''none'']
        (snd (writeDailyNote twoQuestions date_2024_03_07 date_2024_03_07
               [str ''todo'' \<mapsto> str ''Ship the spec''] emptyHost))))
       (notePath twoQuestions date_2024_03_07)
     = Some (markdown twoQuestions date_2024_03_07 [str ''dreams'' \<mapsto> str ''none''])"
  using writeDailyNote_last_write_wins [of date_2024_03_07 date_2024_03_07 twoQuestions
      date_2024_03_07 "[str ''dreams'' \<mapsto> str ''none'']" date_2024_03_07
      "[str ''todo'' \<mapsto> str ''Ship the spec'']" emptyHost]
  by blast

section \<open>The form session\<close>

lemma closed_form_ignores: "\<not> isOpen m \<Longrightarrow> foldl (handle f) (m, w) evs = (m, w)"
  by (induction evs) simp_all

lemma open_form_outcome:
  "isOpen m \<Longrightarrow>
   snd (foldl (handle f) (m, w) evs)
   = (if submitted evs then f (foldl assign (answers m) (takeWhile isChange evs)) w else w)"
proof (induction evs arbitrary: m)
  case Nil
  then show ?case by (simp add: submitted_def)
next
  case (Cons ev evs)
  show ?case
  proof (cases ev)
    case (Change k v)
    have "isOpen (m\<lparr>answers := js_set (answers m) k v\<rparr>)"
      using Cons.prems by simp
    from Cons.IH [OF this] Cons.prems Change show ?thesis
      by (simp add: submitted_def)
  next
    case ClickSave
    with Cons.prems show ?thesis
      by (simp add: submitted_def closed_form_ignores)
  next
    case Dismiss
    with Cons.prems show ?thesis
      by (simp add: submitted_def closed_form_ignores)
  qed
qed

lemma session_outcome:
  "snd (session f evs w) = (if submitted evs then f (accumulated evs) w else w)"
  by (simp add: session_def accumulated_def open_form_outcome newModal_def)

text \<open>
  Claim C7. In every form session the completion callback is invoked exactly once, with
  the answers accumulated so far, when the session is submitted, and not at all otherwise;
  with the plugin's own callback a session that is not submitted leaves the host as it
  was, without any call to the document store.
\<close>

theorem onSubmit_once_or_never:
  "snd (session recordCall evs []) = (if submitted evs then [accumulated evs] else [])
   \<and> snd (session (pluginSubmit s now1 now2) evs h)
     = (if submitted evs then pluginSubmit s now1 now2 (accumulated evs) h else h)"
  by (simp add: session_outcome recordCall_def)

theorem onSubmit_once_or_never_witness:
  "submitted [Change (str ''todo'') (str ''a''), Change (str ''todo'') (str ''ab''), ClickSave, ClickSave]
   \<and> snd (session recordCall
        [Change (str ''todo'') (str ''a''), Change (str ''todo'') (str ''ab''), ClickSave, ClickSave] [])
     = [[str ''todo'' \<mapsto> str ''ab'']]
   \<and> \<not> submitted [Change (str ''todo'') (str ''a''), Dismiss, ClickSave]
   \<and> snd (session recordCall [Change (str ''todo'') (str ''a''), Dismiss, ClickSave] []) = []
   \<and> snd (session (pluginSubmit twoQuestions date_2024_03_07 date_2024_03_07)
        [Change (str ''todo'') (str ''a''), Dismiss, ClickSave] emptyHost) = emptyHost"
proof -
  have a: "submitted [Change (str ''todo'') (str ''a''), Change (str ''todo'') (str ''ab''), ClickSave, ClickSave]"
    by (simp add: submitted_def)
  have b: "\<not> submitted [Change (str ''todo'') (str ''a''), Dismiss, ClickSave]"
    by (simp add: submitted_def)
  have c: "accumulated [Change (str ''todo'') (str ''a''), Change (str ''todo'') (str ''ab''), ClickSave, ClickSave]
           = [str ''todo'' \<mapsto> str ''ab'']"
    by (simp add: accumulated_def js_set_def str_def)
  show ?thesis
    using a b
      onSubmit_once_or_never [of "[Change (str ''todo'') (str ''a''), Change (str ''todo'') (str ''ab''), ClickSave, ClickSave]"]
      onSubmit_once_or_never [of "[Change (str ''todo'') (str ''a''), Dismiss, ClickSave]"
        twoQuestions date_2024_03_07 date_2024_03_07 emptyHost]
    by (simp add: c)
qed

lemma renderQuestions_outcome:
  "fst (renderQuestions qs el)
   = (if \<exists>q \<in> set qs. q_type q = Dropdown \<and> choices q = None then Inl TypeError else Inr ())"
  by (induction qs arbitrary: el) (auto simp: Let_def split: qtype.splits option.splits)

lemma renderQuestions_content:
  "\<forall>q \<in> set qs. q_type q = Dropdown \<longrightarrow> choices q \<noteq> None \<Longrightarrow>
   snd (renderQuestions qs el) = el @ concat (map expected_controls qs)"
  by (induction qs arbitrary: el)
     (auto simp: Let_def expected_controls_def split: qtype.splits option.splits)

text \<open>
  Claim C9. Loading keeps a persisted question list as it is, so a dropdown question
  without choices passes the load undetected. Opening the form with settings that hold
  such a question fails with a TypeError, raised by the read of the absent choices; with
  settings in which every dropdown question has its choices, opening the form succeeds and
  shows the title, the expected controls of every question in order, and the Save button.
\<close>

theorem onOpen_missing_choices:
  "(if \<exists>q \<in> set (questions s). q_type q = Dropdown \<and> choices q = None
    then fst (onOpen s now) = Inl TypeError
    else onOpen s now
         = (Inr (),
            [H2 (str ''Daily Reflection '' @ [0x2013] @ str '' '' @ moment_format ''YYYY-MM-DD'' now)]
            @ concat (map expected_controls (questions s))
            @ [ButtonComponent (str ''Save'')]))
   \<and> questions (loadSettings (Some \<lparr>p_dailyFolder = pf, p_questions = Some qs\<rparr>)) = qs"
proof -
  let ?title = "H2 (str ''Daily Reflection '' @ [0x2013] @ str '' '' @ moment_format ''YYYY-MM-DD'' now)"
  obtain r el where r: "renderQuestions (questions s) [?title] = (r, el)"
    by (cases "renderQuestions (questions s) [?title]")
  have fst: "r = (if \<exists>q \<in> set (questions s). q_type q = Dropdown \<and> choices q = None
                  then Inl TypeError else Inr ())"
    using renderQuestions_outcome [of "questions s" "[?title]"] r by simp
  show ?thesis
  proof (cases "\<exists>q \<in> set (questions s). q_type q = Dropdown \<and> choices q = None")
    case True
    with fst r show ?thesis
      by (simp add: onOpen_def Let_def loadSettings_def Object_assign_def)
  next
    case False
    then have wf: "\<forall>q \<in> set (questions s). q_type q = Dropdown \<longrightarrow> choices q \<noteq> None"
      by auto
    have "el = [?title] @ concat (map expected_controls (questions s))"
      using renderQuestions_content [OF wf, of "[?title]"] r by simp
    with False fst r show ?thesis
      by (simp add: onOpen_def Let_def loadSettings_def Object_assign_def)
  qed
qed

theorem onOpen_missing_choices_witness:
  "(\<exists>q \<in> set (questions malformedSettings). q_type q = Dropdown \<and> choices q = None)
   \<and> fst (onOpen malformedSettings date_2024_03_07) = Inl TypeError
   \<and> \<not> (\<exists>q \<in> set (questions DEFAULT_SETTINGS). q_type q = Dropdown \<and> choices q = None)
   \<and> fst (onOpen DEFAULT_SETTINGS date_2024_03_07) = Inr ()
   \<and> questions (loadSettings (Some \<lparr>p_dailyFolder = None,
        p_questions = Some (questions malformedSettings)\<rparr>)) = questions malformedSettings"
proof -
  have bad: "\<exists>q \<in> set (questions malformedSettings). q_type q = Dropdown \<and> choices q = None"
    by (simp add: malformedSettings_def question_def)
  have good: "\<not> (\<exists>q \<in> set (questions DEFAULT_SETTINGS). q_type q = Dropdown \<and> choices q = None)"
    by (simp add: DEFAULT_SETTINGS_def question_def dropdown_def)
  show ?thesis
    using bad good
      onOpen_missing_choices [of malformedSettings date_2024_03_07 None "questions malformedSettings"]
      onOpen_missing_choices [of DEFAULT_SETTINGS date_2024_03_07]
    by simp
qed

end
